theory Spec2Isabelle
  imports Main "HOL-Library.AList"
begin

section \<open>JavaScript values, objects and observable effects\<close>

text \<open>
  The values that travel through \<open>src/App.jsx\<close>: \<open>null\<close>, strings, the
  \<open>serverTimestamp()\<close> sentinel handed to the store on a write, and the timestamp the
  store puts in its place. An object literal is an association list in insertion order;
  setting a key that exists keeps its position (\<open>AList.update\<close>), as a spread followed
  by an override does.
\<close>

datatype jsval = JNull | JStr string | JServerTimestamp | JTimestamp nat

type_synonym jsobject = "(string \<times> jsval) list"

fun truthy :: "jsval \<Rightarrow> bool" where
  "truthy JNull = False"
| "truthy (JStr s) = (s \<noteq> [])"
| "truthy JServerTimestamp = True"
| "truthy (JTimestamp t) = True"

record query =
  q_path :: "string list"
  q_orderBy :: string
  q_desc :: bool
  q_limit :: nat

text \<open>
  The error that \<open>collection()\<close> of the firebase library throws for a path it
  refuses. Nothing in \<open>src/App.jsx\<close> catches it where it is raised, so it rejects
  the promise of the function that asked for the collection.
\<close>

datatype firestore_error =
    EmptyPathArgument
  | InvalidSegment string
  | InvalidCollectionReference nat

datatype effect =
    ConsoleError string
  | ConsoleWarn string
  | Alert string
  | AddDocCall "string list" jsobject
  | GetDocsCall query
  | ValidationMessage
  | UnhandledRejection firestore_error

section \<open>Configuration (lines 7-23 and 103-105)\<close>

text \<open>
  The injected globals (\<open>__app_id\<close>, \<open>__admin_password\<close>) are \<open>None\<close> when
  \<open>typeof\<close> gives \<open>'undefined'\<close>; the Vite variables are \<open>None\<close> when unset.
  \<open>firebase_config\<close> is the parsed descriptor, \<open>None\<close> when it is absent, when
  its JSON does not parse (the \<open>catch\<close> of line 18 sets \<open>null\<close>) or when it
  parses to a value that \<open>!FIREBASE_CONFIG\<close> takes for missing.
\<close>

type_synonym fb_config = "(string \<times> string) list"

record environment =
  firebase_config :: "fb_config option"
  app_id_global :: "string option"
  VITE_APP_ID :: "string option"
  initial_auth_token :: "string option"
  admin_password_global :: "jsval option"
  VITE_ADMIN_PASSWORD :: "string option"
  VITE_USE_FIREBASE_ADMIN :: "string option"

text \<open>\<open>a || b\<close> on an optional string: an unset or empty \<open>a\<close> gives \<open>b\<close>.\<close>

definition or_else :: "string option \<Rightarrow> 'a \<Rightarrow> (string \<Rightarrow> 'a) \<Rightarrow> 'a" where
  "or_else a b f = (case a of None \<Rightarrow> b | Some s \<Rightarrow> if s = [] then b else f s)"

definition APP_ID :: "environment \<Rightarrow> string" where
  "APP_ID env = (case app_id_global env of Some g \<Rightarrow> g
     | None \<Rightarrow> or_else (VITE_APP_ID env) ''default-2xcustoms-app-id'' (\<lambda>s. s))"

definition ADMIN_PASSWORD :: "environment \<Rightarrow> jsval" where
  "ADMIN_PASSWORD env = (case admin_password_global env of Some g \<Rightarrow> g
     | None \<Rightarrow> or_else (VITE_ADMIN_PASSWORD env) JNull JStr)"

definition useFirebaseAdmin :: "environment \<Rightarrow> bool" where
  "useFirebaseAdmin env =
     (firebase_config env \<noteq> None \<and> VITE_USE_FIREBASE_ADMIN env = Some ''1'')"

section \<open>Durable local storage\<close>

text \<open>
  \<open>localStorage\<close> with the two ways its calls throw, which the \<open>try\<close> blocks of
  lines 993-1009 catch: any access when storage is denied, and \<open>setItem\<close> when the
  quota is exhausted. The items are what persists. \<open>accessible\<close> and
  \<open>quota_exceeded\<close> are the browser's conditions at the time of a call: no call of
  the program changes them, but they can differ from one call to a later one (the user
  changes the site's permissions, space is freed), so a later state of the same storage
  is \<open>ls\<lparr>accessible := a, quota_exceeded := q\<rparr>\<close>.
\<close>

datatype dom_exception = SecurityError | QuotaExceededError

record local_storage =
  accessible :: bool
  quota_exceeded :: bool
  items :: "(string \<times> string) list"

definition getItem :: "local_storage \<Rightarrow> string \<Rightarrow> dom_exception + string option" where
  "getItem ls k = (if accessible ls then Inr (map_of (items ls) k) else Inl SecurityError)"

definition setItem :: "local_storage \<Rightarrow> string \<Rightarrow> string \<Rightarrow> dom_exception + local_storage" where
  "setItem ls k v =
     (if \<not> accessible ls then Inl SecurityError
      else if quota_exceeded ls then Inl QuotaExceededError
      else Inr (ls\<lparr>items := AList.update k v (items ls)\<rparr>))"

definition removeItem :: "local_storage \<Rightarrow> string \<Rightarrow> dom_exception + local_storage" where
  "removeItem ls k =
     (if accessible ls then Inr (ls\<lparr>items := AList.delete k (items ls)\<rparr>)
      else Inl SecurityError)"

section \<open>The useFirebase hook: identity part (lines 174-222 and 270-290)\<close>

record user =
  uid :: string
  user_email :: "string option"

record firebase_hook =
  db :: "fb_config option"
  auth :: "fb_config option"
  userId :: "string option"
  isReady :: bool
  currentUser :: "user option"

definition useFirebase_initial :: firebase_hook where
  "useFirebase_initial =
     \<lparr>db = None, auth = None, userId = None, isReady = False, currentUser = None\<rparr>"

text \<open>
  The mount effect. \<open>init_throws\<close> says whether \<open>initializeApp\<close>, \<open>getAuth\<close> or
  \<open>getFirestore\<close> throws, which the code catches at line 218.
\<close>

definition useFirebase_mount :: "environment \<Rightarrow> bool \<Rightarrow> firebase_hook \<Rightarrow> firebase_hook \<times> effect list" where
  "useFirebase_mount env init_throws h =
     (case firebase_config env of
        None \<Rightarrow> (h\<lparr>isReady := True\<rparr>, [ConsoleError ''Firebase config is missing.''])
      | Some c \<Rightarrow>
          if init_throws
          then (h\<lparr>isReady := True\<rparr>, [ConsoleError ''Firebase initialization failed:''])
          else (h\<lparr>auth := Some c, db := Some c\<rparr>, []))"

text \<open>The \<open>onAuthStateChanged\<close> callback of lines 202-211.\<close>

definition authStateChanged :: "user option \<Rightarrow> firebase_hook \<Rightarrow> firebase_hook" where
  "authStateChanged u h =
     (case u of
        Some usr \<Rightarrow> h\<lparr>userId := Some (uid usr), currentUser := Some usr, isReady := True\<rparr>
      | None \<Rightarrow> h\<lparr>userId := None, currentUser := None, isReady := True\<rparr>)"

text \<open>What the identity provider answers to a password sign-in and to a sign-out.\<close>

datatype signin_response = SignInOk user | SignInThrows string

definition signInAdminWithEmail ::
  "firebase_hook \<Rightarrow> string \<Rightarrow> string \<Rightarrow> signin_response \<Rightarrow> (string + user) \<times> firebase_hook \<times> effect list" where
  "signInAdminWithEmail h email password resp =
     (case auth h of
        None \<Rightarrow> (Inl ''Auth not initialized'', h, [])
      | Some a \<Rightarrow>
          (case resp of
             SignInOk usr \<Rightarrow> (Inr usr, h\<lparr>currentUser := Some usr\<rparr>, [])
           | SignInThrows msg \<Rightarrow> (Inl msg, h, [ConsoleError ''Admin sign-in failed''])))"

definition signOutAdmin :: "firebase_hook \<Rightarrow> bool \<Rightarrow> firebase_hook \<times> effect list" where
  "signOutAdmin h signout_throws =
     (case auth h of
        None \<Rightarrow> (h, [])
      | Some a \<Rightarrow>
          if signout_throws then (h, [ConsoleError ''Sign out failed''])
          else (h\<lparr>currentUser := None\<rparr>, []))"

section \<open>The App component: router and admin gate (lines 985-1050)\<close>

record app_state =
  page :: string
  adminAuth :: bool
  adminModalOpen :: bool
  fb :: firebase_hook
  storage :: local_storage
  login_password :: string
  login_email :: string
  login_error :: string
  console :: "effect list"

text \<open>The initialiser of \<open>adminAuth\<close>, lines 992-998.\<close>

definition adminAuth_initial :: "local_storage \<Rightarrow> bool" where
  "adminAuth_initial ls =
     (case getItem ls ''2x_admin_auth'' of
        Inr v \<Rightarrow> v = Some ''true''
      | Inl e \<Rightarrow> False)"

text \<open>A process start: every \<open>useState\<close> takes its initial value; only the storage survives.\<close>

definition App_start :: "local_storage \<Rightarrow> app_state" where
  "App_start ls =
     \<lparr>page = ''home'', adminAuth = adminAuth_initial ls, adminModalOpen = False,
      fb = useFirebase_initial, storage = ls,
      login_password = [], login_email = [], login_error = [], console = []\<rparr>"

definition navigate :: "string \<Rightarrow> app_state \<Rightarrow> app_state" where
  "navigate newPage st = st\<lparr>page := newPage\<rparr>"

definition handleAdminSuccess :: "app_state \<Rightarrow> app_state" where
  "handleAdminSuccess st =
     st\<lparr>adminAuth := True,
        storage := (case setItem (storage st) ''2x_admin_auth'' ''true'' of
                      Inr ls \<Rightarrow> ls
                    | Inl e \<Rightarrow> storage st),
        page := ''submissions''\<rparr>"

definition handleLogoutAdmin :: "bool \<Rightarrow> app_state \<Rightarrow> app_state" where
  "handleLogoutAdmin signout_throws st =
     (let (h, out) = signOutAdmin (fb st) signout_throws in
      st\<lparr>adminAuth := False,
         storage := (case removeItem (storage st) ''2x_admin_auth'' of
                       Inr ls \<Rightarrow> ls
                     | Inl e \<Rightarrow> storage st),
         fb := h,
         console := console st @ out,
         page := ''home''\<rparr>)"

text \<open>What \<open>renderPage\<close> returns, lines 1015-1050.\<close>

datatype view =
    LoadingScreen
  | CustomFormView
  | CleaningPageView
  | GalleryPageView
  | PricingPageView
  | AboutPageView
  | ContactFormView
  | SubmissionsDashboardView
  | AdminRequiredPrompt
  | HomePageView

definition renderPage :: "app_state \<Rightarrow> view" where
  "renderPage st =
     (if \<not> isReady (fb st) then LoadingScreen
      else if page st = ''custom'' then CustomFormView
      else if page st = ''cleaning'' then CleaningPageView
      else if page st = ''gallery'' then GalleryPageView
      else if page st = ''pricing'' then PricingPageView
      else if page st = ''about'' then AboutPageView
      else if page st = ''contact'' then ContactFormView
      else if page st = ''submissions'' then
        (if adminAuth st then SubmissionsDashboardView else AdminRequiredPrompt)
      else HomePageView)"

section \<open>The AdminLogin component (lines 98-137)\<close>

text \<open>
  The component's \<open>password\<close>, \<open>email\<close> and \<open>error\<close> are the \<open>login_\<close> fields of
  the state; \<open>onSuccess\<close> is \<open>handleAdminSuccess\<close> and \<open>onClose\<close> closes the modal.
\<close>

definition handleSubmitPassword :: "environment \<Rightarrow> app_state \<Rightarrow> app_state" where
  "handleSubmitPassword env st =
     (let st1 = (if \<not> truthy (ADMIN_PASSWORD env)
                 then st\<lparr>console := console st @
                   [ConsoleWarn ''No admin password is configured (VITE_ADMIN_PASSWORD). Login will always fail until you set one.'']\<rparr>
                 else st)
      in if JStr (login_password st1) = ADMIN_PASSWORD env
         then (handleAdminSuccess st1)\<lparr>login_password := [], login_error := [],
                                        adminModalOpen := False\<rparr>
         else st1\<lparr>login_error := ''Invalid password''\<rparr>)"

definition handleSubmitFirebase :: "signin_response \<Rightarrow> app_state \<Rightarrow> app_state" where
  "handleSubmitFirebase resp st =
     (let st1 = st\<lparr>login_error := []\<rparr> in
      if login_email st1 = [] \<or> login_password st1 = []
      then st1\<lparr>login_error := ''Please enter email and password''\<rparr>
      else
        (let (res, h, out) = signInAdminWithEmail (fb st1) (login_email st1) (login_password st1) resp;
             st2 = st1\<lparr>fb := h, console := console st1 @ out\<rparr>
         in case res of
              Inr usr \<Rightarrow> (handleAdminSuccess st2)\<lparr>login_email := [], login_password := [],
                                                  adminModalOpen := False\<rparr>
            | Inl msg \<Rightarrow> st2\<lparr>login_error := (if msg = [] then ''Sign-in failed'' else msg)\<rparr>))"

text \<open>The form the modal shows, and so the handler a submit runs, follows the mode.\<close>

definition AdminLogin_submit :: "environment \<Rightarrow> signin_response \<Rightarrow> app_state \<Rightarrow> app_state" where
  "AdminLogin_submit env resp st =
     (if useFirebaseAdmin env then handleSubmitFirebase resp st
      else handleSubmitPassword env st)"

text \<open>\<open>attemptPassword(s)\<close>: the user types \<open>s\<close> into the password field and submits.\<close>

definition attemptPassword :: "environment \<Rightarrow> string \<Rightarrow> app_state \<Rightarrow> app_state" where
  "attemptPassword env s st = handleSubmitPassword env (st\<lparr>login_password := s\<rparr>)"

section \<open>The remote document store\<close>

text \<open>
  The store is reached through the firebase library, which is not part of the sources
  of this repository. The collection's documents are pairs of a store-assigned id and
  the stored object; the store holds one list of documents per collection path. What
  the store answers to one call (accept or throw) is an input of the model.
\<close>

type_synonym stored_doc = "string \<times> jsobject"

type_synonym firestore = "string list \<Rightarrow> stored_doc list"

datatype write_response = WriteAccepted string nat | WriteThrows string

datatype read_response = ReadOk | ReadThrows string

definition resolve_sentinels :: "nat \<Rightarrow> jsobject \<Rightarrow> jsobject" where
  \<comment> \<open>Modelled from the spec: the server-assigned \<open>createdAt\<close> of section 3, put by
      the store (absent from the sources) in place of each \<open>serverTimestamp()\<close> sentinel.\<close>
  "resolve_sentinels t data =
     map (\<lambda>(k, v). (k, if v = JServerTimestamp then JTimestamp t else v)) data"

definition addDoc ::
  "firestore \<Rightarrow> string list \<Rightarrow> jsobject \<Rightarrow> write_response \<Rightarrow> (string + string) \<times> firestore" where
  \<comment> \<open>Modelled from the spec: the write of the Remote Collection Adapter
      (\<open>addDoc\<close> of \<open>firebase/firestore\<close>, absent from the sources), sections 2, 3 and 6:
      an append that assigns the id and the server time, or an error and no change.\<close>
  "addDoc fs path data resp =
     (case resp of
        WriteThrows msg \<Rightarrow> (Inl msg, fs)
      | WriteAccepted newId t \<Rightarrow>
          (Inr newId, fs(path := fs path @ [(newId, resolve_sentinels t data)])))"

definition order_value :: "string \<Rightarrow> stored_doc \<Rightarrow> nat option" where
  \<comment> \<open>Modelled from the spec: the value the store (absent from the sources) orders a
      document by, the timestamp in the order field; \<open>None\<close> when the field holds none.\<close>
  "order_value field d =
     (case map_of (snd d) field of Some (JTimestamp t) \<Rightarrow> Some t | _ \<Rightarrow> None)"

definition order_key :: "string \<Rightarrow> stored_doc \<Rightarrow> nat" where
  "order_key field d = (case order_value field d of Some t \<Rightarrow> t | None \<Rightarrow> 0)"

definition getDocs :: "firestore \<Rightarrow> query \<Rightarrow> read_response \<Rightarrow> string + stored_doc list" where
  \<comment> \<open>Modelled from the spec: the read of the Remote Collection Adapter
      (\<open>getDocs\<close>, \<open>query\<close>, \<open>orderBy\<close>, \<open>limit\<close> of \<open>firebase/firestore\<close>, absent
      from the sources), sections 2 and 6: the documents that carry a timestamp in the
      order field, ordered by it in the direction asked, cut at the limit; or an error.\<close>
  "getDocs fs q resp =
     (case resp of
        ReadThrows msg \<Rightarrow> Inl msg
      | ReadOk \<Rightarrow>
          (let present = filter (\<lambda>d. order_value (q_orderBy q) d \<noteq> None) (fs (q_path q));
               ascending = sort_key (order_key (q_orderBy q)) present
           in Inr (take (q_limit q) (if q_desc q then rev ascending else ascending))))"

section \<open>The useFirebase hook: submission part (lines 224-268)\<close>

text \<open>
  How the promise of \<open>addSubmission\<close> settles: fulfilled with
  \<open>{success: true, docId}\<close>, fulfilled with \<open>{success: false, error}\<close>, or
  rejected with the error that \<open>collection()\<close> threw at line 231, before the
  \<open>try\<close> of line 237. \<open>success\<close> is \<open>result.success\<close>, which only a fulfilled
  promise has.
\<close>

datatype submission_result = SubmitOk string | SubmitFailed string | Thrown firestore_error

fun success :: "submission_result \<Rightarrow> bool" where
  "success (SubmitOk docId) = True"
| "success (SubmitFailed err) = False"
| "success (Thrown err) = False"

fun has_double_slash :: "string \<Rightarrow> bool" where
  "has_double_slash (a # b # cs) =
     ((a = CHR ''/'' \<and> b = CHR ''/'') \<or> has_double_slash (b # cs))"
| "has_double_slash cs = False"

fun split_slash :: "string \<Rightarrow> string list" where
  \<comment> \<open>\<open>path.split('/')\<close>\<close>
  "split_slash [] = [[]]"
| "split_slash (c # cs) =
     (if c = CHR ''/'' then [] # split_slash cs
      else (case split_slash cs of [] \<Rightarrow> [[c]] | w # ws \<Rightarrow> (c # w) # ws))"

definition collection :: "string \<Rightarrow> string list \<Rightarrow> firestore_error + string list" where
  \<comment> \<open>Modelled from the spec: the collection path of section 6
      (\<open>artifacts/{appId}/public/data/submissions\<close>) as \<open>collection()\<close> of
      \<open>firebase/firestore\<close>, absent from the sources, builds it: the first component
      must not be empty, no component may contain \<open>//\<close>, every component is split at
      \<open>/\<close> and its empty pieces dropped, and a collection has an odd number of
      segments; otherwise the call throws.\<close>
  "collection path pathSegments =
     (if path = [] then Inl EmptyPathArgument
      else case find has_double_slash (path # pathSegments) of
        Some p \<Rightarrow> Inl (InvalidSegment p)
      | None \<Rightarrow>
          (let segments = concat (map (\<lambda>p. filter (\<lambda>s. s \<noteq> []) (split_slash p))
                                   (path # pathSegments))
           in if even (length segments)
              then Inl (InvalidCollectionReference (length segments))
              else Inr segments))"

definition getSubmissionsCollectionRef ::
  "environment \<Rightarrow> firebase_hook \<Rightarrow> firestore_error + string list option" where
  "getSubmissionsCollectionRef env h =
     (case db h of
        None \<Rightarrow> Inr None
      | Some d \<Rightarrow>
          (case collection ''artifacts'' [APP_ID env, ''public'', ''data'', ''submissions''] of
             Inl err \<Rightarrow> Inl err
           | Inr submissionsRef \<Rightarrow> Inr (Some submissionsRef)))"

definition addSubmission ::
  "environment \<Rightarrow> firebase_hook \<Rightarrow> jsobject \<Rightarrow> write_response \<Rightarrow> firestore
     \<Rightarrow> submission_result \<times> firestore \<times> effect list" where
  "addSubmission env h data resp fs =
     (case getSubmissionsCollectionRef env h of
        Inl err \<Rightarrow> (Thrown err, fs, [])
      | Inr None \<Rightarrow> (SubmitFailed ''Database not ready.'', fs,
                     [ConsoleError ''Firestore database not ready.''])
      | Inr (Some submissionsRef) \<Rightarrow>
          (let payload = AList.update ''timestamp'' JServerTimestamp
                           (AList.update ''userId''
                              (case userId h of None \<Rightarrow> JNull | Some u \<Rightarrow> JStr u) data)
           in case addDoc fs submissionsRef payload resp of
                (Inr docId, fs') \<Rightarrow> (SubmitOk docId, fs', [AddDocCall submissionsRef payload])
              | (Inl msg, fs') \<Rightarrow>
                  (SubmitFailed msg, fs',
                   [AddDocCall submissionsRef payload, ConsoleError ''Error adding document:''])))"

text \<open>
  \<open>doc.data().timestamp?.toDate().toLocaleString() || 'N/A'\<close>: an absent or null
  field gives \<open>'N/A'\<close>; a value without \<open>toDate\<close> makes the call throw a TypeError
  (\<open>None\<close>). \<open>toLocaleString\<close> depends on the browser's locale and is a parameter.
\<close>

definition display_timestamp :: "(nat \<Rightarrow> string) \<Rightarrow> jsobject \<Rightarrow> string option" where
  "display_timestamp toLocaleString data =
     (case map_of data ''timestamp'' of
        None \<Rightarrow> Some ''N/A''
      | Some JNull \<Rightarrow> Some ''N/A''
      | Some (JTimestamp t) \<Rightarrow>
          Some (if toLocaleString t = [] then ''N/A'' else toLocaleString t)
      | Some (JStr s) \<Rightarrow> None
      | Some JServerTimestamp \<Rightarrow> None)"

definition toSubmission :: "(nat \<Rightarrow> string) \<Rightarrow> stored_doc \<Rightarrow> jsobject option" where
  "toSubmission toLocaleString d =
     (case display_timestamp toLocaleString (snd d) of
        None \<Rightarrow> None
      | Some shown \<Rightarrow>
          Some (AList.update ''timestamp'' (JStr shown)
                  (fold (\<lambda>(k, v). AList.update k v) (snd d) [(''id'', JStr (fst d))])))"

definition submissions_query :: "string list \<Rightarrow> query" where
  "submissions_query submissionsRef =
     \<lparr>q_path = submissionsRef, q_orderBy = ''timestamp'', q_desc = True, q_limit = 50\<rparr>"

text \<open>
  \<open>fetchSubmissions\<close> returns a list (\<open>Inr\<close>), or its promise is rejected
  (\<open>Inl\<close>) with the error that \<open>collection()\<close> threw at line 251, before the
  \<open>try\<close> of line 254.
\<close>

definition fetchSubmissions ::
  "environment \<Rightarrow> firebase_hook \<Rightarrow> (nat \<Rightarrow> string) \<Rightarrow> read_response \<Rightarrow> firestore
     \<Rightarrow> firestore_error + jsobject list \<times> effect list" where
  "fetchSubmissions env h toLocaleString resp fs =
     (case getSubmissionsCollectionRef env h of
        Inl err \<Rightarrow> Inl err
      | Inr None \<Rightarrow> Inr ([], [])
      | Inr (Some submissionsRef) \<Rightarrow>
          (let q = submissions_query submissionsRef in
           case getDocs fs q resp of
             Inl msg \<Rightarrow> Inr ([], [GetDocsCall q, ConsoleError ''Error fetching documents:''])
           | Inr docs \<Rightarrow>
               (case those (map (toSubmission toLocaleString) docs) of
                  None \<Rightarrow> Inr ([], [GetDocsCall q, ConsoleError ''Error fetching documents:''])
                | Some submissions \<Rightarrow> Inr (submissions, [GetDocsCall q]))))"

section \<open>The forms (lines 383-432 and 696-728)\<close>

text \<open>
  Each \<open>handleSubmit\<close> awaits \<open>addSubmission\<close> at line 420 (717) outside any
  \<open>try\<close>: when that promise is rejected the handler stops there, with
  \<open>isSubmitting\<close> still true, and its own promise is rejected unhandled.
\<close>

record image_info =
  img_name :: string
  img_size :: nat
  img_type :: string

record custom_form =
  cf_name :: string
  cf_email :: string
  cf_shoeModel :: string
  cf_designRequest :: string
  cf_budget :: string
  cf_image :: "image_info option"

record contact_form =
  ct_name :: string
  ct_email :: string
  ct_message :: string

record 'f form_component =
  form :: 'f
  isSubmitting :: bool
  modalOpen :: bool

definition CustomForm_empty :: custom_form where
  "CustomForm_empty =
     \<lparr>cf_name = [], cf_email = [], cf_shoeModel = [], cf_designRequest = [],
      cf_budget = [], cf_image = None\<rparr>"

definition ContactForm_empty :: contact_form where
  "ContactForm_empty = \<lparr>ct_name = [], ct_email = [], ct_message = []\<rparr>"

definition budgetOptions :: "string list" where
  "budgetOptions = [''<$50'', ''$50-$100'', ''$100-$200'', ''$200+'']"

text \<open>
  \<open>(size / 1024).toFixed(1)\<close>: a byte count below \<open>2^53\<close> divided by \<open>1024\<close> is
  an exact double, and \<open>toFixed(1)\<close> takes the nearest tenth, the larger one on a
  tie: the integer \<open>(10 * size + 512) div 1024\<close> tenths.
\<close>

definition digit :: "nat \<Rightarrow> char" where
  "digit d = ''0123456789'' ! d"

fun decimal :: "nat \<Rightarrow> string" where
  "decimal n = (if n < 10 then [digit n] else decimal (n div 10) @ [digit (n mod 10)])"

declare decimal.simps [simp del]

definition kilobytes_toFixed1 :: "nat \<Rightarrow> string" where
  "kilobytes_toFixed1 bytes =
     (let tenths = (10 * bytes + 512) div 1024
      in decimal (tenths div 10) @ ''.'' @ [digit (tenths mod 10)])"

definition CustomForm_handleChange :: "string \<Rightarrow> string \<Rightarrow> custom_form \<Rightarrow> custom_form" where
  \<comment> \<open>\<open>{...prev, [name]: value}\<close> for the five controls wired to it\<close>
  "CustomForm_handleChange nm v prev =
     (if nm = ''name'' then prev\<lparr>cf_name := v\<rparr>
      else if nm = ''email'' then prev\<lparr>cf_email := v\<rparr>
      else if nm = ''shoeModel'' then prev\<lparr>cf_shoeModel := v\<rparr>
      else if nm = ''designRequest'' then prev\<lparr>cf_designRequest := v\<rparr>
      else if nm = ''budget'' then prev\<lparr>cf_budget := v\<rparr>
      else prev)"

definition handleImageUpload :: "image_info option \<Rightarrow> custom_form \<Rightarrow> custom_form" where
  "handleImageUpload file prev =
     (case file of None \<Rightarrow> prev | Some f \<Rightarrow> prev\<lparr>cf_image := Some f\<rparr>)"

definition ContactForm_handleChange :: "string \<Rightarrow> string \<Rightarrow> contact_form \<Rightarrow> contact_form" where
  "ContactForm_handleChange nm v prev =
     (if nm = ''name'' then prev\<lparr>ct_name := v\<rparr>
      else if nm = ''email'' then prev\<lparr>ct_email := v\<rparr>
      else if nm = ''message'' then prev\<lparr>ct_message := v\<rparr>
      else prev)"

definition customSubmissionData :: "custom_form \<Rightarrow> jsobject" where
  "customSubmissionData f =
     [(''type'', JStr ''custom_booking''),
      (''status'', JStr ''New''),
      (''name'', JStr (cf_name f)),
      (''email'', JStr (cf_email f)),
      (''shoeModel'', JStr (cf_shoeModel f)),
      (''designRequest'', JStr (cf_designRequest f)),
      (''budget'', JStr (cf_budget f)),
      (''imageFile'', JStr (case cf_image f of
          Some i \<Rightarrow> img_name i @ '' ('' @ kilobytes_toFixed1 (img_size i) @ '' KB)''
        | None \<Rightarrow> ''No image uploaded''))]"

definition contactSubmissionData :: "contact_form \<Rightarrow> jsobject" where
  "contactSubmissionData f =
     [(''type'', JStr ''contact_message''),
      (''name'', JStr (ct_name f)),
      (''email'', JStr (ct_email f)),
      (''message'', JStr (ct_message f))]"

definition CustomForm_handleSubmit ::
  "environment \<Rightarrow> firebase_hook \<Rightarrow> write_response \<Rightarrow> firestore \<Rightarrow> custom_form form_component
     \<Rightarrow> custom_form form_component \<times> firestore \<times> effect list" where
  "CustomForm_handleSubmit env h resp fs c =
     (let c1 = c\<lparr>isSubmitting := True\<rparr> in
      case addSubmission env h (customSubmissionData (form c1)) resp fs of
        (SubmitOk docId, fs', out) \<Rightarrow>
          (c1\<lparr>modalOpen := True, form := CustomForm_empty, isSubmitting := False\<rparr>, fs', out)
      | (SubmitFailed err, fs', out) \<Rightarrow>
          (c1\<lparr>isSubmitting := False\<rparr>, fs',
           out @ [ConsoleError ''Submission failed:'',
                  Alert ''Submission failed. Check console for details.''])
      | (Thrown err, fs', out) \<Rightarrow> (c1, fs', out @ [UnhandledRejection err]))"

definition ContactForm_handleSubmit ::
  "environment \<Rightarrow> firebase_hook \<Rightarrow> write_response \<Rightarrow> firestore \<Rightarrow> contact_form form_component
     \<Rightarrow> contact_form form_component \<times> firestore \<times> effect list" where
  "ContactForm_handleSubmit env h resp fs c =
     (let c1 = c\<lparr>isSubmitting := True\<rparr> in
      case addSubmission env h (contactSubmissionData (form c1)) resp fs of
        (SubmitOk docId, fs', out) \<Rightarrow>
          (c1\<lparr>modalOpen := True, form := ContactForm_empty, isSubmitting := False\<rparr>, fs', out)
      | (SubmitFailed err, fs', out) \<Rightarrow>
          (c1\<lparr>isSubmitting := False\<rparr>, fs',
           out @ [ConsoleError ''Submission failed:'',
                  Alert ''Submission failed. Check console for details.''])
      | (Thrown err, fs', out) \<Rightarrow> (c1, fs', out @ [UnhandledRejection err]))"

section \<open>The submit event of a form\<close>

text \<open>
  Neither \<open>handleSubmit\<close> checks its fields. The checks are the \<open>required\<close>
  attributes and the \<open>type="email"\<close> of the controls in the JSX (lines 456-477 and
  751-759): the forms do not set \<open>noValidate\<close>, so the browser validates the controls
  when the user submits and dispatches the \<open>submit\<close> event, which runs \<open>onSubmit\<close>,
  only if every control is valid. The browser's test of an e-mail address is a parameter.
\<close>

datatype control_kind = TextInput | EmailInput | TextArea | SelectOne

record control =
  c_kind :: control_kind
  c_required :: bool
  c_value :: string

definition CustomForm_controls :: "custom_form \<Rightarrow> control list" where
  "CustomForm_controls f =
     [\<lparr>c_kind = TextInput, c_required = True, c_value = cf_name f\<rparr>,
      \<lparr>c_kind = EmailInput, c_required = True, c_value = cf_email f\<rparr>,
      \<lparr>c_kind = TextInput, c_required = True, c_value = cf_shoeModel f\<rparr>,
      \<lparr>c_kind = TextArea, c_required = True, c_value = cf_designRequest f\<rparr>,
      \<lparr>c_kind = SelectOne, c_required = True, c_value = cf_budget f\<rparr>]"

definition ContactForm_controls :: "contact_form \<Rightarrow> control list" where
  "ContactForm_controls f =
     [\<lparr>c_kind = TextInput, c_required = True, c_value = ct_name f\<rparr>,
      \<lparr>c_kind = EmailInput, c_required = True, c_value = ct_email f\<rparr>,
      \<lparr>c_kind = TextArea, c_required = True, c_value = ct_message f\<rparr>]"

definition valueMissing :: "control \<Rightarrow> bool" where
  "valueMissing c = (c_required c \<and> c_value c = [])"

definition typeMismatch :: "(string \<Rightarrow> bool) \<Rightarrow> control \<Rightarrow> bool" where
  "typeMismatch email_ok c = (c_kind c = EmailInput \<and> c_value c \<noteq> [] \<and> \<not> email_ok (c_value c))"

definition checkValidity :: "(string \<Rightarrow> bool) \<Rightarrow> control list \<Rightarrow> bool" where
  "checkValidity email_ok cs = list_all (\<lambda>c. \<not> valueMissing c \<and> \<not> typeMismatch email_ok c) cs"

definition CustomForm_submit ::
  "(string \<Rightarrow> bool) \<Rightarrow> environment \<Rightarrow> firebase_hook \<Rightarrow> write_response \<Rightarrow> firestore
     \<Rightarrow> custom_form form_component \<Rightarrow> custom_form form_component \<times> firestore \<times> effect list" where
  "CustomForm_submit email_ok env h resp fs c =
     (if checkValidity email_ok (CustomForm_controls (form c))
      then CustomForm_handleSubmit env h resp fs c
      else (c, fs, [ValidationMessage]))"

definition ContactForm_submit ::
  "(string \<Rightarrow> bool) \<Rightarrow> environment \<Rightarrow> firebase_hook \<Rightarrow> write_response \<Rightarrow> firestore
     \<Rightarrow> contact_form form_component \<Rightarrow> contact_form form_component \<times> firestore \<times> effect list" where
  "ContactForm_submit email_ok env h resp fs c =
     (if checkValidity email_ok (ContactForm_controls (form c))
      then ContactForm_handleSubmit env h resp fs c
      else (c, fs, [ValidationMessage]))"

section \<open>Sample configurations and states for the worked examples\<close>

text \<open>
  A deployment with the shared secret of the README and no backend (\<open>ex_env\<close>), one
  whose injected global secret is the empty string, one with a backend and the
  delegated admin mode switched on, and one with a backend and an empty injected
  application id; a storage that holds the admin flag, readable and refusing access; a hook with and without a store; filled forms; and a
  collection of three documents, the last one without a timestamp.
\<close>

definition ex_storage :: local_storage where
  "ex_storage = \<lparr>accessible = True, quota_exceeded = False, items = []\<rparr>"

definition ex_storage_flagged :: local_storage where
  "ex_storage_flagged =
     \<lparr>accessible = True, quota_exceeded = False, items = [(''2x_admin_auth'', ''true'')]\<rparr>"

definition ex_env :: environment where
  "ex_env =
     \<lparr>firebase_config = None, app_id_global = None, VITE_APP_ID = None,
      initial_auth_token = None, admin_password_global = None,
      VITE_ADMIN_PASSWORD = Some ''PizzaWhite70'', VITE_USE_FIREBASE_ADMIN = None\<rparr>"

definition ex_env_empty_global :: environment where
  "ex_env_empty_global =
     \<lparr>firebase_config = None, app_id_global = None, VITE_APP_ID = None,
      initial_auth_token = None, admin_password_global = Some (JStr []),
      VITE_ADMIN_PASSWORD = None, VITE_USE_FIREBASE_ADMIN = None\<rparr>"

definition ex_env_firebase :: environment where
  "ex_env_firebase =
     \<lparr>firebase_config = Some [(''projectId'', ''demo'')], app_id_global = None,
      VITE_APP_ID = None, initial_auth_token = None, admin_password_global = None,
      VITE_ADMIN_PASSWORD = None, VITE_USE_FIREBASE_ADMIN = Some ''1''\<rparr>"

definition ex_env_empty_app_id :: environment where
  "ex_env_empty_app_id =
     \<lparr>firebase_config = Some [(''projectId'', ''demo'')], app_id_global = Some [],
      VITE_APP_ID = None, initial_auth_token = None, admin_password_global = None,
      VITE_ADMIN_PASSWORD = None, VITE_USE_FIREBASE_ADMIN = None\<rparr>"

definition ex_storage_refusing :: local_storage where
  "ex_storage_refusing =
     \<lparr>accessible = False, quota_exceeded = False, items = [(''2x_admin_auth'', ''true'')]\<rparr>"

definition ex_hook :: firebase_hook where
  "ex_hook =
     \<lparr>db = Some [(''projectId'', ''demo'')], auth = Some [(''projectId'', ''demo'')],
      userId = Some ''anon-1'', isReady = True,
      currentUser = Some \<lparr>uid = ''anon-1'', user_email = None\<rparr>\<rparr>"


definition ex_admin :: user where
  "ex_admin = \<lparr>uid = ''admin-1'', user_email = Some ''admin@example.com''\<rparr>"

definition ex_custom :: "custom_form form_component" where
  "ex_custom =
     \<lparr>form = \<lparr>cf_name = ''Ada'', cf_email = ''ada@example.com'', cf_shoeModel = ''Dunk Low'',
              cf_designRequest = ''Red flames'', cf_budget = ''$50-$100'',
              cf_image = Some \<lparr>img_name = ''ref.png'', img_size = 1536, img_type = ''image/png''\<rparr>\<rparr>,
      isSubmitting = False, modalOpen = False\<rparr>"

definition ex_contact :: "contact_form form_component" where
  "ex_contact =
     \<lparr>form = \<lparr>ct_name = ''Ada'', ct_email = ''ada@example.com'', ct_message = ''Hello''\<rparr>,
      isSubmitting = False, modalOpen = False\<rparr>"

definition ex_contact_no_message :: "contact_form form_component" where
  "ex_contact_no_message =
     \<lparr>form = \<lparr>ct_name = ''Ada'', ct_email = ''ada@example.com'', ct_message = []\<rparr>,
      isSubmitting = False, modalOpen = False\<rparr>"

definition ex_path :: "string list" where
  "ex_path = [''artifacts'', ''default-2xcustoms-app-id'', ''public'', ''data'', ''submissions'']"

definition ex_store :: firestore where
  "ex_store = (\<lambda>p. [])(ex_path :=
     [(''d1'', [(''type'', JStr ''contact_message''), (''timestamp'', JTimestamp 5)]),
      (''d2'', [(''type'', JStr ''custom_booking''), (''timestamp'', JTimestamp 9)]),
      (''d3'', [(''type'', JStr ''contact_message'')])])"

definition ex_login_state :: app_state where
  "ex_login_state =
     (App_start ex_storage)\<lparr>fb := ex_hook, login_email := ''admin@example.com'',
                             login_password := ''hunter2''\<rparr>"

section \<open>The admin gate\<close>

subsection \<open>Shared-secret login\<close>

lemma ADMIN_PASSWORD_env_only:
  "admin_password_global env = None \<Longrightarrow>
     ADMIN_PASSWORD env = JNull \<or> (\<exists>s. s \<noteq> [] \<and> ADMIN_PASSWORD env = JStr s)"
  by (auto simp: ADMIN_PASSWORD_def or_else_def split: option.splits)

lemma attemptPassword_adminAuth:
  "adminAuth (attemptPassword env s st) \<longleftrightarrow> JStr s = ADMIN_PASSWORD env \<or> adminAuth st"
  by (simp add: attemptPassword_def handleSubmitPassword_def Let_def handleAdminSuccess_def)

lemma attemptPassword_mismatch:
  "JStr s \<noteq> ADMIN_PASSWORD env \<Longrightarrow>
     login_error (attemptPassword env s st) = ''Invalid password'' \<and>
     adminAuth (attemptPassword env s st) = adminAuth st \<and>
     storage (attemptPassword env s st) = storage st \<and>
     page (attemptPassword env s st) = page st"
  by (simp add: attemptPassword_def handleSubmitPassword_def Let_def)

lemma attemptPassword_null_secret:
  "ADMIN_PASSWORD env = JNull \<Longrightarrow> \<not> adminAuth st \<Longrightarrow>
     \<not> adminAuth (attemptPassword env s st) \<and>
     login_error (attemptPassword env s st) = ''Invalid password''"
  by (simp add: attemptPassword_def handleSubmitPassword_def Let_def)

lemma attemptPassword_README_scenario:
  "adminAuth (attemptPassword ex_env ''PizzaWhite70'' (App_start ex_storage)) \<and>
   \<not> adminAuth (attemptPassword ex_env ''pizzawhite70'' (App_start ex_storage)) \<and>
   login_error (attemptPassword ex_env ''pizzawhite70'' (App_start ex_storage)) = ''Invalid password''"
  by (simp add: attemptPassword_def handleSubmitPassword_def Let_def handleAdminSuccess_def
      ADMIN_PASSWORD_def or_else_def ex_env_def App_start_def adminAuth_initial_def getItem_def
      ex_storage_def)

text \<open>
  C1. \<open>attemptPassword(s)\<close> logs in iff \<open>s\<close> is the configured secret, and never when
  no secret is configured. The handler takes an empty secret for "not configured": its
  guard \<open>!ADMIN_PASSWORD\<close> warns that login will always fail. The Vite path turns an
  empty secret into \<open>null\<close>, which no input equals; the injected global is taken as it
  is. With \<open>__admin_password = ""\<close> the handler warns that no password is configured
  and then logs the empty input in.
\<close>

theorem attemptPassword_empty_global_secret:
  "\<not> truthy (ADMIN_PASSWORD ex_env_empty_global) \<and>
   \<not> adminAuth (App_start ex_storage) \<and>
   adminAuth (attemptPassword ex_env_empty_global [] (App_start ex_storage)) \<and>
   page (attemptPassword ex_env_empty_global [] (App_start ex_storage)) = ''submissions'' \<and>
   console (attemptPassword ex_env_empty_global [] (App_start ex_storage)) =
     [ConsoleWarn ''No admin password is configured (VITE_ADMIN_PASSWORD). Login will always fail until you set one.'']"
  by (simp add: attemptPassword_def handleSubmitPassword_def Let_def handleAdminSuccess_def
      ADMIN_PASSWORD_def ex_env_empty_global_def App_start_def adminAuth_initial_def getItem_def
      ex_storage_def)

subsection \<open>Delegated sign-in\<close>

text \<open>
  C3, as the code has it. In the delegated mode a successful sign-in runs the same
  success handler as the shared-secret mode: the gate opens, the page becomes the
  dashboard, the session's user is kept in the hook, and the durable key
  \<open>2x_admin_auth\<close> is written with \<open>true\<close> whenever local storage takes the write.
  A rejected sign-in leaves local storage as it was.
\<close>

theorem modeB_success_sets_local_flag:
  assumes "useFirebaseAdmin env" "login_email st \<noteq> []" "login_password st \<noteq> []"
    "auth (fb st) \<noteq> None"
  shows "adminAuth (AdminLogin_submit env (SignInOk usr) st) \<and>
         page (AdminLogin_submit env (SignInOk usr) st) = ''submissions'' \<and>
         currentUser (fb (AdminLogin_submit env (SignInOk usr) st)) = Some usr \<and>
         storage (AdminLogin_submit env (SignInOk usr) st) =
           (case setItem (storage st) ''2x_admin_auth'' ''true'' of
              Inr ls \<Rightarrow> ls | Inl e \<Rightarrow> storage st) \<and>
         (accessible (storage st) \<and> \<not> quota_exceeded (storage st) \<longrightarrow>
            getItem (storage (AdminLogin_submit env (SignInOk usr) st)) ''2x_admin_auth''
              = Inr (Some ''true'')) \<and>
         storage (AdminLogin_submit env (SignInThrows msg) st) = storage st"
  using assms
  by (auto simp: AdminLogin_submit_def handleSubmitFirebase_def signInAdminWithEmail_def Let_def
      handleAdminSuccess_def setItem_def getItem_def AList.update_conv)

theorem modeB_success_sets_local_flag_witness:
  "useFirebaseAdmin ex_env_firebase \<and> login_email ex_login_state \<noteq> [] \<and>
   login_password ex_login_state \<noteq> [] \<and> auth (fb ex_login_state) \<noteq> None \<and>
   accessible (storage ex_login_state) \<and> \<not> quota_exceeded (storage ex_login_state) \<and>
   adminAuth (AdminLogin_submit ex_env_firebase (SignInOk ex_admin) ex_login_state) \<and>
   currentUser (fb (AdminLogin_submit ex_env_firebase (SignInOk ex_admin) ex_login_state))
     = Some ex_admin \<and>
   getItem (storage (AdminLogin_submit ex_env_firebase (SignInOk ex_admin) ex_login_state))
     ''2x_admin_auth'' = Inr (Some ''true'') \<and>
   storage (AdminLogin_submit ex_env_firebase (SignInThrows ''auth/wrong-password'') ex_login_state)
     = storage ex_login_state"
proof -
  have h: "useFirebaseAdmin ex_env_firebase" "login_email ex_login_state \<noteq> []"
    "login_password ex_login_state \<noteq> []" "auth (fb ex_login_state) \<noteq> None"
    "accessible (storage ex_login_state)" "\<not> quota_exceeded (storage ex_login_state)"
    by (simp_all add: useFirebaseAdmin_def ex_env_firebase_def ex_login_state_def ex_hook_def
        App_start_def ex_storage_def)
  show ?thesis
    using h modeB_success_sets_local_flag [OF h(1-4), of ex_admin "''auth/wrong-password''"]
    by blast
qed

theorem modeB_login_writes_local_flag_counterexample:
  "useFirebaseAdmin ex_env_firebase \<and>
   getItem (storage ex_login_state) ''2x_admin_auth'' = Inr None \<and>
   getItem (storage (AdminLogin_submit ex_env_firebase (SignInOk ex_admin) ex_login_state))
     ''2x_admin_auth'' = Inr (Some ''true'') \<and>
   storage (AdminLogin_submit ex_env_firebase (SignInOk ex_admin) ex_login_state)
     \<noteq> storage ex_login_state"
  by (simp add: AdminLogin_submit_def handleSubmitFirebase_def signInAdminWithEmail_def Let_def
      handleAdminSuccess_def setItem_def getItem_def useFirebaseAdmin_def ex_env_firebase_def
      ex_login_state_def ex_hook_def App_start_def ex_storage_def)

subsection \<open>Logout and restart\<close>

text \<open>
  C7, as the code has it. In either mode \<open>logout()\<close> closes the gate and goes to the
  home page, whatever storage and the identity provider do. It removes the durable key
  when local storage accepts the removal, and then every later restart, whatever the
  storage's conditions then, starts with the gate closed. When storage refuses the
  removal the exception is swallowed (the empty \<open>catch\<close> of line 1009) and the items
  are left as they were. A restart that cannot read storage starts with the gate closed.
\<close>

theorem logout_clears_when_storage_accepts:
  "\<not> adminAuth (handleLogoutAdmin signout_throws st) \<and>
   page (handleLogoutAdmin signout_throws st) = ''home'' \<and>
   (accessible (storage st) \<longrightarrow>
      map_of (items (storage (handleLogoutAdmin signout_throws st))) ''2x_admin_auth'' = None \<and>
      (\<forall>a q. \<not> adminAuth (App_start
          ((storage (handleLogoutAdmin signout_throws st))\<lparr>accessible := a, quota_exceeded := q\<rparr>)))) \<and>
   (\<not> accessible (storage st) \<longrightarrow>
      storage (handleLogoutAdmin signout_throws st) = storage st) \<and>
   (\<not> accessible ls \<longrightarrow> \<not> adminAuth (App_start ls))"
proof -
  have gate: "\<not> adminAuth (handleLogoutAdmin signout_throws st)"
    by (simp add: handleLogoutAdmin_def Let_def split: prod.splits)
  have home: "page (handleLogoutAdmin signout_throws st) = ''home''"
    by (simp add: handleLogoutAdmin_def Let_def split: prod.splits)
  have removed: "items (storage (handleLogoutAdmin signout_throws st)) =
      AList.delete ''2x_admin_auth'' (items (storage st))" if "accessible (storage st)"
    using that by (simp add: handleLogoutAdmin_def Let_def removeItem_def split: prod.splits)
  have gone: "map_of (items (storage (handleLogoutAdmin signout_throws st))) ''2x_admin_auth'' = None"
    if "accessible (storage st)"
    by (simp add: removed [OF that] AList.delete_conv)
  have restart: "\<not> adminAuth (App_start
      ((storage (handleLogoutAdmin signout_throws st))\<lparr>accessible := a, quota_exceeded := q\<rparr>))"
    if "accessible (storage st)" for a q
    using gone [OF that] by (simp add: App_start_def adminAuth_initial_def getItem_def)
  have kept: "storage (handleLogoutAdmin signout_throws st) = storage st"
    if "\<not> accessible (storage st)"
    using that by (simp add: handleLogoutAdmin_def Let_def removeItem_def split: prod.splits)
  have blind: "\<not> adminAuth (App_start ls)" if "\<not> accessible ls"
    using that by (simp add: App_start_def adminAuth_initial_def getItem_def)
  show ?thesis using gate home gone restart kept blind by blast
qed

theorem logout_clears_when_storage_accepts_witness:
  "accessible (storage (App_start ex_storage_flagged)) \<and>
   adminAuth (App_start ex_storage_flagged) \<and>
   \<not> adminAuth (handleLogoutAdmin False (App_start ex_storage_flagged)) \<and>
   map_of (items (storage (handleLogoutAdmin False (App_start ex_storage_flagged))))
      ''2x_admin_auth'' = None \<and>
   \<not> adminAuth (App_start
      ((storage (handleLogoutAdmin False (App_start ex_storage_flagged)))
         \<lparr>accessible := True, quota_exceeded := False\<rparr>)) \<and>
   \<not> accessible (storage ((App_start ex_storage_flagged)\<lparr>storage := ex_storage_refusing\<rparr>)) \<and>
   storage (handleLogoutAdmin False ((App_start ex_storage_flagged)\<lparr>storage := ex_storage_refusing\<rparr>))
     = ex_storage_refusing \<and>
   \<not> accessible ex_storage_refusing \<and>
   \<not> adminAuth (App_start ex_storage_refusing)"
proof -
  have a: "accessible (storage (App_start ex_storage_flagged))"
    "adminAuth (App_start ex_storage_flagged)"
    by (simp_all add: App_start_def ex_storage_flagged_def adminAuth_initial_def getItem_def)
  have r: "\<not> accessible (storage ((App_start ex_storage_flagged)\<lparr>storage := ex_storage_refusing\<rparr>))"
    "\<not> accessible ex_storage_refusing"
    "storage ((App_start ex_storage_flagged)\<lparr>storage := ex_storage_refusing\<rparr>) = ex_storage_refusing"
    by (simp_all add: ex_storage_refusing_def)
  show ?thesis
    using a r
      logout_clears_when_storage_accepts [of False "App_start ex_storage_flagged" ex_storage_refusing]
      logout_clears_when_storage_accepts [of False
        "(App_start ex_storage_flagged)\<lparr>storage := ex_storage_refusing\<rparr>" ex_storage_refusing]
    by metis
qed

theorem logout_refused_flag_survives_counterexample:
  "adminAuth ((App_start ex_storage_flagged)\<lparr>storage := ex_storage_refusing\<rparr>) \<and>
   \<not> adminAuth (handleLogoutAdmin False
        ((App_start ex_storage_flagged)\<lparr>storage := ex_storage_refusing\<rparr>)) \<and>
   map_of (items (storage (handleLogoutAdmin False
        ((App_start ex_storage_flagged)\<lparr>storage := ex_storage_refusing\<rparr>)))) ''2x_admin_auth''
     = Some ''true'' \<and>
   adminAuth (App_start
     ((storage (handleLogoutAdmin False
        ((App_start ex_storage_flagged)\<lparr>storage := ex_storage_refusing\<rparr>)))\<lparr>accessible := True\<rparr>))"
  by (simp add: handleLogoutAdmin_def Let_def removeItem_def signOutAdmin_def App_start_def
      adminAuth_initial_def getItem_def ex_storage_flagged_def ex_storage_refusing_def
      useFirebase_initial_def)

subsection \<open>Router and render-time guard\<close>

text \<open>
  C9, as the code has it. \<open>navigate\<close> replaces the page for every token and changes
  nothing else. With the page on \<open>submissions\<close> and the gate closed the dashboard is
  never rendered: the login prompt is rendered once the services are ready, and the
  loading screen, which \<open>renderPage\<close> tests first, until then.
\<close>

theorem navigate_unguarded_render_guarded:
  "navigate t st = st\<lparr>page := t\<rparr> \<and> page (navigate t st) = t \<and>
   (page st = ''submissions'' \<and> \<not> adminAuth st \<longrightarrow>
      renderPage st = (if isReady (fb st) then AdminRequiredPrompt else LoadingScreen)) \<and>
   (renderPage st = SubmissionsDashboardView \<longrightarrow>
      adminAuth st \<and> page st = ''submissions'' \<and> isReady (fb st))"
  by (simp add: navigate_def renderPage_def)

theorem navigate_unguarded_render_guarded_witness:
  "page (navigate ''submissions'' ((App_start ex_storage)\<lparr>fb := ex_hook\<rparr>)) = ''submissions'' \<and>
   \<not> adminAuth (navigate ''submissions'' ((App_start ex_storage)\<lparr>fb := ex_hook\<rparr>)) \<and>
   renderPage (navigate ''submissions'' ((App_start ex_storage)\<lparr>fb := ex_hook\<rparr>))
     = AdminRequiredPrompt \<and>
   renderPage (navigate ''submissions'' ((App_start ex_storage_flagged)\<lparr>fb := ex_hook\<rparr>))
     = SubmissionsDashboardView \<and>
   adminAuth (navigate ''submissions'' ((App_start ex_storage_flagged)\<lparr>fb := ex_hook\<rparr>))"
proof -
  have a: "page (navigate ''submissions'' ((App_start ex_storage)\<lparr>fb := ex_hook\<rparr>)) = ''submissions''"
    "\<not> adminAuth (navigate ''submissions'' ((App_start ex_storage)\<lparr>fb := ex_hook\<rparr>))"
    "isReady (fb (navigate ''submissions'' ((App_start ex_storage)\<lparr>fb := ex_hook\<rparr>)))"
    by (simp_all add: navigate_def App_start_def adminAuth_initial_def getItem_def ex_storage_def
        ex_hook_def)
  have b: "renderPage (navigate ''submissions'' ((App_start ex_storage_flagged)\<lparr>fb := ex_hook\<rparr>))
     = SubmissionsDashboardView"
    by (simp add: renderPage_def navigate_def App_start_def adminAuth_initial_def getItem_def
        ex_storage_flagged_def ex_hook_def)
  have r: "renderPage (navigate ''submissions'' ((App_start ex_storage)\<lparr>fb := ex_hook\<rparr>)) =
      (if isReady (fb (navigate ''submissions'' ((App_start ex_storage)\<lparr>fb := ex_hook\<rparr>)))
       then AdminRequiredPrompt else LoadingScreen)"
    using a(1,2)
      navigate_unguarded_render_guarded [of "''submissions''"
        "navigate ''submissions'' ((App_start ex_storage)\<lparr>fb := ex_hook\<rparr>)"]
    by blast
  have p: "renderPage (navigate ''submissions'' ((App_start ex_storage)\<lparr>fb := ex_hook\<rparr>))
     = AdminRequiredPrompt"
    unfolding r using a(3) by simp
  have g: "adminAuth (navigate ''submissions'' ((App_start ex_storage_flagged)\<lparr>fb := ex_hook\<rparr>))"
    using b
      navigate_unguarded_render_guarded [of "''submissions''"
        "navigate ''submissions'' ((App_start ex_storage_flagged)\<lparr>fb := ex_hook\<rparr>)"]
    by blast
  show ?thesis using a(1,2) p b g by blast
qed

theorem render_before_ready_counterexample:
  "\<not> isReady (fb (navigate ''submissions''
       ((App_start ex_storage)\<lparr>fb := fst (useFirebase_mount ex_env_firebase False useFirebase_initial)\<rparr>))) \<and>
   page (navigate ''submissions''
       ((App_start ex_storage)\<lparr>fb := fst (useFirebase_mount ex_env_firebase False useFirebase_initial)\<rparr>))
     = ''submissions'' \<and>
   \<not> adminAuth (navigate ''submissions''
       ((App_start ex_storage)\<lparr>fb := fst (useFirebase_mount ex_env_firebase False useFirebase_initial)\<rparr>)) \<and>
   renderPage (navigate ''submissions''
       ((App_start ex_storage)\<lparr>fb := fst (useFirebase_mount ex_env_firebase False useFirebase_initial)\<rparr>))
     = LoadingScreen \<and>
   renderPage (navigate ''submissions''
       ((App_start ex_storage)\<lparr>fb := fst (useFirebase_mount ex_env_firebase False useFirebase_initial)\<rparr>))
     \<noteq> AdminRequiredPrompt"
  by (simp add: renderPage_def navigate_def App_start_def adminAuth_initial_def getItem_def
      ex_storage_def useFirebase_initial_def useFirebase_mount_def ex_env_firebase_def)

section \<open>The submission service\<close>

subsection \<open>The collection reference\<close>

lemma getSubmissionsCollectionRef_no_db:
  "db h = None \<Longrightarrow> getSubmissionsCollectionRef env h = Inr None"
  by (simp add: getSubmissionsCollectionRef_def)

lemma getSubmissionsCollectionRef_Some_db:
  "getSubmissionsCollectionRef env h = Inr (Some submissionsRef) \<Longrightarrow> db h \<noteq> None"
  by (auto simp: getSubmissionsCollectionRef_def split: option.splits)

lemma getSubmissionsCollectionRef_example:
  "getSubmissionsCollectionRef ex_env_firebase ex_hook = Inr (Some ex_path)"
  by (simp add: getSubmissionsCollectionRef_def collection_def APP_ID_def or_else_def Let_def
      ex_env_firebase_def ex_hook_def ex_path_def)

text \<open>
  With \<open>__app_id = ""\<close> the path has four segments and \<open>collection()\<close> throws:
  \<open>addSubmission\<close> and \<open>fetchSubmissions\<close> are rejected, nothing is written or read.
\<close>

lemma getSubmissionsCollectionRef_empty_app_id:
  "getSubmissionsCollectionRef ex_env_empty_app_id ex_hook = Inl (InvalidCollectionReference 4)"
  by (simp add: getSubmissionsCollectionRef_def collection_def APP_ID_def Let_def
      ex_env_empty_app_id_def ex_hook_def)

subsection \<open>What addSubmission returns\<close>


lemma addSubmission_thrown:
  "getSubmissionsCollectionRef env h = Inl err \<Longrightarrow>
     addSubmission env h data resp fs = (Thrown err, fs, [])"
  by (simp add: addSubmission_def)

lemma addSubmission_rejected:
  "getSubmissionsCollectionRef env h = Inr (Some submissionsRef) \<Longrightarrow>
     \<exists>out. addSubmission env h data (WriteThrows msg) fs = (SubmitFailed msg, fs, out)"
  by (simp add: addSubmission_def addDoc_def Let_def)

lemma addSubmission_accepted:
  "getSubmissionsCollectionRef env h = Inr (Some submissionsRef) \<Longrightarrow>
   addSubmission env h data (WriteAccepted newId t) fs =
     (SubmitOk newId,
      fs(submissionsRef := fs submissionsRef @
           [(newId, resolve_sentinels t
               (AList.update ''timestamp'' JServerTimestamp
                 (AList.update ''userId'' (case userId h of None \<Rightarrow> JNull | Some u \<Rightarrow> JStr u) data)))]),
      [AddDocCall submissionsRef
         (AList.update ''timestamp'' JServerTimestamp
            (AList.update ''userId'' (case userId h of None \<Rightarrow> JNull | Some u \<Rightarrow> JStr u) data))])"
  by (simp add: addSubmission_def addDoc_def Let_def)

lemma addSubmission_result_cases:
  obtains (failed) e fs' out where "addSubmission env h data resp fs = (SubmitFailed e, fs', out)"
  | (ok) i fs' out where "addSubmission env h data resp fs = (SubmitOk i, fs', out)"
  | (thrown) err fs' out where "addSubmission env h data resp fs = (Thrown err, fs', out)"
proof (cases "addSubmission env h data resp fs")
  case (fields r fs' out)
  then show ?thesis by (cases r) (auto intro: failed ok thrown)
qed

subsection \<open>The three ways each handleSubmit ends\<close>


lemma CustomForm_handleSubmit_ok:
  "addSubmission env h (customSubmissionData (form c)) resp fs = (SubmitOk i, fs', out) \<Longrightarrow>
   CustomForm_handleSubmit env h resp fs c =
     (c\<lparr>modalOpen := True, form := CustomForm_empty, isSubmitting := False\<rparr>, fs', out)"
  by (simp add: CustomForm_handleSubmit_def)

lemma CustomForm_handleSubmit_thrown:
  "addSubmission env h (customSubmissionData (form c)) resp fs = (Thrown err, fs', out) \<Longrightarrow>
   CustomForm_handleSubmit env h resp fs c =
     (c\<lparr>isSubmitting := True\<rparr>, fs', out @ [UnhandledRejection err])"
  by (simp add: CustomForm_handleSubmit_def)


lemma ContactForm_handleSubmit_ok:
  "addSubmission env h (contactSubmissionData (form c)) resp fs = (SubmitOk i, fs', out) \<Longrightarrow>
   ContactForm_handleSubmit env h resp fs c =
     (c\<lparr>modalOpen := True, form := ContactForm_empty, isSubmitting := False\<rparr>, fs', out)"
  by (simp add: ContactForm_handleSubmit_def)

lemma ContactForm_handleSubmit_thrown:
  "addSubmission env h (contactSubmissionData (form c)) resp fs = (Thrown err, fs', out) \<Longrightarrow>
   ContactForm_handleSubmit env h resp fs c =
     (c\<lparr>isSubmitting := True\<rparr>, fs', out @ [UnhandledRejection err])"
  by (simp add: ContactForm_handleSubmit_def)

text \<open>
  The aborted submit at \<open>__app_id = ""\<close>: nothing is written, the fields are kept, and
  \<open>isSubmitting\<close> stays true.
\<close>

lemma handleSubmit_empty_app_id:
  "CustomForm_handleSubmit ex_env_empty_app_id ex_hook (WriteAccepted ''d4'' 12) ex_store ex_custom =
     (ex_custom\<lparr>isSubmitting := True\<rparr>, ex_store,
      [UnhandledRejection (InvalidCollectionReference 4)])"
  "ContactForm_handleSubmit ex_env_empty_app_id ex_hook (WriteAccepted ''d4'' 12) ex_store ex_contact =
     (ex_contact\<lparr>isSubmitting := True\<rparr>, ex_store,
      [UnhandledRejection (InvalidCollectionReference 4)])"
  "fetchSubmissions ex_env_empty_app_id ex_hook toLocaleString ReadOk ex_store =
     Inl (InvalidCollectionReference 4)"
  using CustomForm_handleSubmit_thrown
          [OF addSubmission_thrown [OF getSubmissionsCollectionRef_empty_app_id]]
        ContactForm_handleSubmit_thrown
          [OF addSubmission_thrown [OF getSubmissionsCollectionRef_empty_app_id]]
  by (simp_all add: fetchSubmissions_def getSubmissionsCollectionRef_empty_app_id)

subsection \<open>Validation before the write\<close>

text \<open>
  C2. A contact submission whose \<open>name\<close>, \<open>email\<close> or \<open>message\<close> is empty is
  rejected by the validation of the form's \<open>required\<close> controls before
  \<open>handleSubmit\<close> runs: the component and the store are unchanged and no write is
  attempted.
\<close>

theorem ContactForm_submit_rejects_empty:
  "ct_name (form c) = [] \<or> ct_email (form c) = [] \<or> ct_message (form c) = [] \<Longrightarrow>
     ContactForm_submit email_ok env h resp fs c = (c, fs, [ValidationMessage])"
  by (auto simp: ContactForm_submit_def checkValidity_def ContactForm_controls_def valueMissing_def)

theorem ContactForm_submit_rejects_empty_witness:
  "ct_message (form ex_contact_no_message) = [] \<and>
   ContactForm_submit (\<lambda>s. True) ex_env_firebase ex_hook (WriteAccepted ''d4'' 12) ex_store
       ex_contact_no_message
     = (ex_contact_no_message, ex_store, [ValidationMessage])"
  using ContactForm_submit_rejects_empty [of ex_contact_no_message "\<lambda>s. True" ex_env_firebase
      ex_hook "WriteAccepted ''d4'' 12" ex_store]
  by (simp add: ex_contact_no_message_def)

lemma CustomForm_submit_rejects_empty:
  "cf_name (form c) = [] \<or> cf_email (form c) = [] \<or> cf_shoeModel (form c) = [] \<or>
   cf_designRequest (form c) = [] \<or> cf_budget (form c) = [] \<Longrightarrow>
     CustomForm_submit email_ok env h resp fs c = (c, fs, [ValidationMessage])"
  by (auto simp: CustomForm_submit_def checkValidity_def CustomForm_controls_def valueMissing_def)

lemma ContactForm_submit_valid:
  "ct_name (form c) \<noteq> [] \<Longrightarrow> ct_email (form c) \<noteq> [] \<Longrightarrow> ct_message (form c) \<noteq> [] \<Longrightarrow>
   email_ok (ct_email (form c)) \<Longrightarrow>
     ContactForm_submit email_ok env h resp fs c = ContactForm_handleSubmit env h resp fs c"
  by (simp add: ContactForm_submit_def checkValidity_def ContactForm_controls_def valueMissing_def
      typeMismatch_def)

subsection \<open>The record a custom booking writes\<close>

lemma map_of_resolve_sentinels:
  "map_of (resolve_sentinels t data) k =
     map_option (\<lambda>v. if v = JServerTimestamp then JTimestamp t else v) (map_of data k)"
  by (simp add: resolve_sentinels_def map_of_map)

lemma stored_field:
  assumes "k \<noteq> ''timestamp''" "k \<noteq> ''userId''" "map_of data k = Some (JStr v)"
  shows "map_of (resolve_sentinels t
            (AList.update ''timestamp'' JServerTimestamp (AList.update ''userId'' u data))) k
         = Some (JStr v)"
  using assms by (simp add: map_of_resolve_sentinels AList.update_conv)

lemma decimal_digit: "n < 10 \<Longrightarrow> decimal n = [digit n]"
  by (subst decimal.simps) simp

lemma decimal_more: "10 \<le> n \<Longrightarrow> decimal n = decimal (n div 10) @ [digit (n mod 10)]"
  by (subst decimal.simps) simp

lemma kilobytes_toFixed1_examples:
  "kilobytes_toFixed1 1536 = ''1.5''" "kilobytes_toFixed1 0 = ''0.0''"
  "kilobytes_toFixed1 51 = ''0.0''" "kilobytes_toFixed1 52 = ''0.1''"
  "kilobytes_toFixed1 2097152 = ''2048.0''"
  by (simp_all add: kilobytes_toFixed1_def Let_def decimal_digit decimal_more digit_def)

text \<open>
  C4. A valid custom booking (every required field non-empty, the budget one of the four
  options), submitted while the store is initialised, its collection reference is built
  and the store accepts the write, appends exactly one document to the collection, under
  the id the store assigned, after one call of the store's write. The document's
  \<open>type\<close> is \<open>custom_booking\<close>, its \<open>status\<close> is \<open>New\<close>, and \<open>name\<close>,
  \<open>email\<close>, \<open>shoeModel\<close>, \<open>designRequest\<close> and \<open>budget\<close> hold the submitted
  strings unmodified, the budget being one of the four literals. (The submits that write
  nothing are C5 and C8.)
\<close>

theorem CustomForm_handleSubmit_record:
  assumes "cf_name (form c) \<noteq> []" "cf_email (form c) \<noteq> []" "cf_shoeModel (form c) \<noteq> []"
    "cf_designRequest (form c) \<noteq> []" "cf_budget (form c) \<in> set budgetOptions"
    "getSubmissionsCollectionRef env h = Inr (Some submissionsRef)"
  shows "\<exists>c' r payload.
          CustomForm_handleSubmit env h (WriteAccepted newId t) fs c =
            (c', fs(submissionsRef := fs submissionsRef @ [(newId, r)]),
             [AddDocCall submissionsRef payload]) \<and>
          map_of r ''type'' = Some (JStr ''custom_booking'') \<and>
          map_of r ''status'' = Some (JStr ''New'') \<and>
          map_of r ''name'' = Some (JStr (cf_name (form c))) \<and>
          map_of r ''email'' = Some (JStr (cf_email (form c))) \<and>
          map_of r ''shoeModel'' = Some (JStr (cf_shoeModel (form c))) \<and>
          map_of r ''designRequest'' = Some (JStr (cf_designRequest (form c))) \<and>
          map_of r ''budget'' = Some (JStr (cf_budget (form c))) \<and>
          cf_budget (form c) \<in> {''<$50'', ''$50-$100'', ''$100-$200'', ''$200+''}"
proof -
  let ?data = "customSubmissionData (form c)"
  let ?u = "case userId h of None \<Rightarrow> JNull | Some u \<Rightarrow> JStr u"
  let ?payload = "AList.update ''timestamp'' JServerTimestamp (AList.update ''userId'' ?u ?data)"
  let ?r = "resolve_sentinels t ?payload"
  have run: "CustomForm_handleSubmit env h (WriteAccepted newId t) fs c =
      (c\<lparr>modalOpen := True, form := CustomForm_empty, isSubmitting := False\<rparr>,
       fs(submissionsRef := fs submissionsRef @ [(newId, ?r)]),
       [AddDocCall submissionsRef ?payload])"
    by (rule CustomForm_handleSubmit_ok [where i = newId])
       (rule addSubmission_accepted [OF assms(6)])
  have f1: "map_of ?r ''type'' = Some (JStr ''custom_booking'')"
    by (rule stored_field) (simp_all add: customSubmissionData_def)
  have f2: "map_of ?r ''status'' = Some (JStr ''New'')"
    by (rule stored_field) (simp_all add: customSubmissionData_def)
  have f3: "map_of ?r ''name'' = Some (JStr (cf_name (form c)))"
    by (rule stored_field) (simp_all add: customSubmissionData_def)
  have f4: "map_of ?r ''email'' = Some (JStr (cf_email (form c)))"
    by (rule stored_field) (simp_all add: customSubmissionData_def)
  have f5: "map_of ?r ''shoeModel'' = Some (JStr (cf_shoeModel (form c)))"
    by (rule stored_field) (simp_all add: customSubmissionData_def)
  have f6: "map_of ?r ''designRequest'' = Some (JStr (cf_designRequest (form c)))"
    by (rule stored_field) (simp_all add: customSubmissionData_def)
  have f7: "map_of ?r ''budget'' = Some (JStr (cf_budget (form c)))"
    by (rule stored_field) (simp_all add: customSubmissionData_def)
  have f8: "cf_budget (form c) \<in> {''<$50'', ''$50-$100'', ''$100-$200'', ''$200+''}"
    using assms(5) by (simp add: budgetOptions_def)
  show ?thesis
    by (intro exI conjI) (rule run f1 f2 f3 f4 f5 f6 f7 f8)+
qed

theorem CustomForm_handleSubmit_record_witness:
  "cf_name (form ex_custom) \<noteq> [] \<and> cf_email (form ex_custom) \<noteq> [] \<and>
   cf_shoeModel (form ex_custom) \<noteq> [] \<and> cf_designRequest (form ex_custom) \<noteq> [] \<and>
   cf_budget (form ex_custom) \<in> set budgetOptions \<and>
   getSubmissionsCollectionRef ex_env_firebase ex_hook = Inr (Some ex_path) \<and>
   (\<exists>c' r out.
      CustomForm_handleSubmit ex_env_firebase ex_hook (WriteAccepted ''d4'' 12) ex_store ex_custom =
        (c', ex_store(ex_path := ex_store ex_path @ [(''d4'', r)]), out) \<and>
      map_of r ''type'' = Some (JStr ''custom_booking'') \<and>
      map_of r ''status'' = Some (JStr ''New'') \<and>
      map_of r ''name'' = Some (JStr ''Ada'') \<and>
      map_of r ''budget'' = Some (JStr ''$50-$100''))"
proof -
  have h: "cf_name (form ex_custom) \<noteq> []" "cf_email (form ex_custom) \<noteq> []"
    "cf_shoeModel (form ex_custom) \<noteq> []" "cf_designRequest (form ex_custom) \<noteq> []"
    "cf_budget (form ex_custom) \<in> set budgetOptions"
    "getSubmissionsCollectionRef ex_env_firebase ex_hook = Inr (Some ex_path)"
    by (simp_all add: ex_custom_def budgetOptions_def getSubmissionsCollectionRef_example)
  have v: "cf_name (form ex_custom) = ''Ada''" "cf_budget (form ex_custom) = ''$50-$100''"
    by (simp_all add: ex_custom_def)
  from CustomForm_handleSubmit_record [OF h, of "''d4''" 12 ex_store]
  obtain c' r payload where
    "CustomForm_handleSubmit ex_env_firebase ex_hook (WriteAccepted ''d4'' 12) ex_store ex_custom =
       (c', ex_store(ex_path := ex_store ex_path @ [(''d4'', r)]), [AddDocCall ex_path payload])"
    "map_of r ''type'' = Some (JStr ''custom_booking'')"
    "map_of r ''status'' = Some (JStr ''New'')"
    "map_of r ''name'' = Some (JStr ''Ada'')"
    "map_of r ''budget'' = Some (JStr ''$50-$100'')"
    unfolding v by blast
  then have "\<exists>c' r out.
      CustomForm_handleSubmit ex_env_firebase ex_hook (WriteAccepted ''d4'' 12) ex_store ex_custom =
        (c', ex_store(ex_path := ex_store ex_path @ [(''d4'', r)]), out) \<and>
      map_of r ''type'' = Some (JStr ''custom_booking'') \<and>
      map_of r ''status'' = Some (JStr ''New'') \<and>
      map_of r ''name'' = Some (JStr ''Ada'') \<and>
      map_of r ''budget'' = Some (JStr ''$50-$100'')"
    by blast
  with h show ?thesis by blast
qed

lemma CustomForm_handleSubmit_example:
  "fst (snd (CustomForm_handleSubmit ex_env_firebase ex_hook (WriteAccepted ''d4'' 12) ex_store
       ex_custom)) ex_path =
   ex_store ex_path @
   [(''d4'',
     [(''type'', JStr ''custom_booking''), (''status'', JStr ''New''), (''name'', JStr ''Ada''),
      (''email'', JStr ''ada@example.com''), (''shoeModel'', JStr ''Dunk Low''),
      (''designRequest'', JStr ''Red flames''), (''budget'', JStr ''$50-$100''),
      (''imageFile'', JStr ''ref.png (1.5 KB)''), (''userId'', JStr ''anon-1''),
      (''timestamp'', JTimestamp 12)])]"
proof -
  have u: "userId ex_hook = Some ''anon-1''" by (simp add: ex_hook_def)
  have d: "customSubmissionData (form ex_custom) =
     [(''type'', JStr ''custom_booking''), (''status'', JStr ''New''), (''name'', JStr ''Ada''),
      (''email'', JStr ''ada@example.com''), (''shoeModel'', JStr ''Dunk Low''),
      (''designRequest'', JStr ''Red flames''), (''budget'', JStr ''$50-$100''),
      (''imageFile'', JStr ''ref.png (1.5 KB)'')]"
    by (simp add: customSubmissionData_def ex_custom_def kilobytes_toFixed1_examples)
  show ?thesis
    unfolding CustomForm_handleSubmit_ok
        [OF addSubmission_accepted [OF getSubmissionsCollectionRef_example]] u d
    by (simp add: resolve_sentinels_def)
qed

subsection \<open>The form after a submit\<close>



text \<open>
  C10. When the write of a custom booking or of a contact message succeeds, the form is
  reset to its initial value: every field is the empty string and the custom form's
  attachment descriptor is \<open>null\<close>; the confirmation modal opens.
\<close>

theorem successful_submit_resets_form:
  "(success (fst (addSubmission env h (customSubmissionData (form c)) resp fs)) \<longrightarrow>
      form (fst (CustomForm_handleSubmit env h resp fs c)) =
        \<lparr>cf_name = [], cf_email = [], cf_shoeModel = [], cf_designRequest = [],
         cf_budget = [], cf_image = None\<rparr> \<and>
      modalOpen (fst (CustomForm_handleSubmit env h resp fs c))) \<and>
   (success (fst (addSubmission env h (contactSubmissionData (form k)) resp fs)) \<longrightarrow>
      form (fst (ContactForm_handleSubmit env h resp fs k)) =
        \<lparr>ct_name = [], ct_email = [], ct_message = []\<rparr> \<and>
      modalOpen (fst (ContactForm_handleSubmit env h resp fs k)))"
proof -
  have custom: "fst (CustomForm_handleSubmit env h resp fs c) =
      c\<lparr>modalOpen := True, form := CustomForm_empty, isSubmitting := False\<rparr>"
    if "success (fst (addSubmission env h (customSubmissionData (form c)) resp fs))"
  proof (cases rule: addSubmission_result_cases [of env h "customSubmissionData (form c)" resp fs])
    case (failed e fs' out)
    with that show ?thesis by simp
  next
    case (ok i fs' out)
    then show ?thesis by (simp add: CustomForm_handleSubmit_ok)
  next
    case (thrown err fs' out)
    with that show ?thesis by simp
  qed
  have contact: "fst (ContactForm_handleSubmit env h resp fs k) =
      k\<lparr>modalOpen := True, form := ContactForm_empty, isSubmitting := False\<rparr>"
    if "success (fst (addSubmission env h (contactSubmissionData (form k)) resp fs))"
  proof (cases rule: addSubmission_result_cases [of env h "contactSubmissionData (form k)" resp fs])
    case (failed e fs' out)
    with that show ?thesis by simp
  next
    case (ok i fs' out)
    then show ?thesis by (simp add: ContactForm_handleSubmit_ok)
  next
    case (thrown err fs' out)
    with that show ?thesis by simp
  qed
  show ?thesis
    using custom contact by (simp add: CustomForm_empty_def ContactForm_empty_def)
qed

theorem successful_submit_resets_form_witness:
  "success (fst (addSubmission ex_env_firebase ex_hook (customSubmissionData (form ex_custom))
        (WriteAccepted ''d4'' 12) ex_store)) \<and>
   form (fst (CustomForm_handleSubmit ex_env_firebase ex_hook (WriteAccepted ''d4'' 12) ex_store ex_custom))
     = \<lparr>cf_name = [], cf_email = [], cf_shoeModel = [], cf_designRequest = [],
         cf_budget = [], cf_image = None\<rparr> \<and>
   cf_image (form ex_custom) \<noteq> None \<and>
   success (fst (addSubmission ex_env_firebase ex_hook (contactSubmissionData (form ex_contact))
        (WriteAccepted ''d4'' 12) ex_store)) \<and>
   form (fst (ContactForm_handleSubmit ex_env_firebase ex_hook (WriteAccepted ''d4'' 12) ex_store ex_contact))
     = \<lparr>ct_name = [], ct_email = [], ct_message = []\<rparr>"
proof -
  note up = getSubmissionsCollectionRef_example
  have s1: "success (fst (addSubmission ex_env_firebase ex_hook (customSubmissionData (form ex_custom))
        (WriteAccepted ''d4'' 12) ex_store))"
    by (simp add: addSubmission_accepted [OF up])
  have s2: "success (fst (addSubmission ex_env_firebase ex_hook (contactSubmissionData (form ex_contact))
        (WriteAccepted ''d4'' 12) ex_store))"
    by (simp add: addSubmission_accepted [OF up])
  have i: "cf_image (form ex_custom) \<noteq> None" by (simp add: ex_custom_def)
  show ?thesis
    using s1 s2 i
      successful_submit_resets_form [of ex_env_firebase ex_hook ex_custom "WriteAccepted ''d4'' 12"
        ex_store ex_contact]
    by blast
qed

subsection \<open>The store absent or failing\<close>



subsection \<open>The admin listing\<close>

lemma those_eq_Some: "those xs = Some ys \<Longrightarrow> xs = map Some ys"
  by (induction xs arbitrary: ys) (auto split: option.splits)

lemma desc_sorted_take_rev_sort:
  "sorted_wrt (\<lambda>a b. f b \<le> (f a :: nat)) (take n (rev (sort_key f xs)))"
proof -
  have "sorted (map f (sort_key f xs))" by (rule sorted_sort_key)
  then have "sorted_wrt (\<lambda>a b. f a \<le> f b) (sort_key f xs)" by (simp add: sorted_map)
  then have "sorted_wrt (\<lambda>a b. f b \<le> f a) (rev (sort_key f xs))" by (simp add: sorted_wrt_rev)
  then show ?thesis by (rule sorted_wrt_take)
qed

lemma getDocs_submissions_query:
  assumes "getDocs fs (submissions_query p) resp = Inr ds"
  shows "length ds \<le> 50"
    and "sorted_wrt (\<lambda>a b. order_key ''timestamp'' b \<le> order_key ''timestamp'' a) ds"
    and "set ds \<subseteq> set (fs p)"
    and "\<forall>d\<in>set ds. order_value ''timestamp'' d \<noteq> None"
proof -
  let ?present = "filter (\<lambda>d. order_value ''timestamp'' d \<noteq> None) (fs p)"
  have ds: "ds = take 50 (rev (sort_key (order_key ''timestamp'') ?present))"
    using assms by (cases resp) (simp_all add: getDocs_def submissions_query_def)
  show "length ds \<le> 50" by (simp add: ds)
  show "sorted_wrt (\<lambda>a b. order_key ''timestamp'' b \<le> order_key ''timestamp'' a) ds"
    unfolding ds by (rule desc_sorted_take_rev_sort)
  have sub: "set ds \<subseteq> set ?present"
    unfolding ds using set_take_subset [of 50 "rev (sort_key (order_key ''timestamp'') ?present)"]
    by simp
  then show "set ds \<subseteq> set (fs p)" by auto
  from sub show "\<forall>d\<in>set ds. order_value ''timestamp'' d \<noteq> None" by auto
qed

text \<open>
  C6. Whatever list \<open>fetchSubmissions\<close> returns has at most 50 records, and they are
  the images, in order, of stored documents of the submissions collection whose server
  timestamps descend: of two returned records the earlier one's \<open>createdAt\<close> is at
  least the later one's. (The returned records carry the timestamp as a display string,
  so the order is stated on the documents they come from.)
\<close>

theorem fetchSubmissions_recent_first:
  assumes "fetchSubmissions env h toLocaleString resp fs = Inr (rs, out)"
  shows "length rs \<le> 50 \<and>
         (\<exists>ds. map (toSubmission toLocaleString) ds = map Some rs \<and>
               sorted_wrt (\<lambda>a b. order_key ''timestamp'' b \<le> order_key ''timestamp'' a) ds \<and>
               (\<forall>d\<in>set ds. order_value ''timestamp'' d \<noteq> None \<and>
                    (\<exists>submissionsRef.
                        getSubmissionsCollectionRef env h = Inr (Some submissionsRef) \<and>
                        d \<in> set (fs submissionsRef))))"
proof (cases "rs = []")
  case True
  have "map (toSubmission toLocaleString) [] = map Some rs" using True by simp
  then show ?thesis using True by force
next
  case False
  from False assms obtain p where ref: "getSubmissionsCollectionRef env h = Inr (Some p)"
    by (auto simp: fetchSubmissions_def split: sum.splits option.splits)
  from False assms ref obtain ds where
    ds: "getDocs fs (submissions_query p) resp = Inr ds"
    and rs: "those (map (toSubmission toLocaleString) ds) = Some rs"
    by (auto simp: fetchSubmissions_def Let_def split: sum.splits option.splits)
  have m: "map (toSubmission toLocaleString) ds = map Some rs"
    using rs by (rule those_eq_Some)
  then have "length rs = length ds" by (metis length_map)
  with getDocs_submissions_query(1) [OF ds] have l: "length rs \<le> 50" by simp
  from getDocs_submissions_query(3,4) [OF ds] ref
  have mem: "\<forall>d\<in>set ds. order_value ''timestamp'' d \<noteq> None \<and>
      (\<exists>submissionsRef. getSubmissionsCollectionRef env h = Inr (Some submissionsRef) \<and>
          d \<in> set (fs submissionsRef))"
    by auto
  show ?thesis using l m getDocs_submissions_query(2) [OF ds] mem by blast
qed

lemma fetchSubmissions_example:
  "fetchSubmissions ex_env_firebase ex_hook (\<lambda>t. ''shown'') ReadOk ex_store =
     Inr ([[(''id'', JStr ''d2''), (''type'', JStr ''custom_booking''), (''timestamp'', JStr ''shown'')],
           [(''id'', JStr ''d1''), (''type'', JStr ''contact_message''), (''timestamp'', JStr ''shown'')]],
          [GetDocsCall (submissions_query ex_path)])"
  by (simp add: fetchSubmissions_def getSubmissionsCollectionRef_example
      submissions_query_def getDocs_def order_value_def order_key_def toSubmission_def
      display_timestamp_def ex_store_def ex_path_def)

theorem fetchSubmissions_recent_first_witness:
  "fetchSubmissions ex_env_firebase ex_hook (\<lambda>t. ''shown'') ReadOk ex_store =
     Inr ([[(''id'', JStr ''d2''), (''type'', JStr ''custom_booking''), (''timestamp'', JStr ''shown'')],
           [(''id'', JStr ''d1''), (''type'', JStr ''contact_message''), (''timestamp'', JStr ''shown'')]],
          [GetDocsCall (submissions_query ex_path)]) \<and>
   (\<exists>ds. map (toSubmission (\<lambda>t. ''shown'')) ds =
          map Some
            [[(''id'', JStr ''d2''), (''type'', JStr ''custom_booking''), (''timestamp'', JStr ''shown'')],
             [(''id'', JStr ''d1''), (''type'', JStr ''contact_message''), (''timestamp'', JStr ''shown'')]] \<and>
         sorted_wrt (\<lambda>a b. order_key ''timestamp'' b \<le> order_key ''timestamp'' a) ds \<and>
         (\<forall>d\<in>set ds. order_value ''timestamp'' d \<noteq> None))"
  using fetchSubmissions_example fetchSubmissions_recent_first [OF fetchSubmissions_example]
  by blast

end
